theory Spec2Isabelle
  imports Main
begin

section \<open>The package and its libraries\<close>

text \<open>
  The package \<open>awssecret\<close> fetches a secret from AWS Secrets Manager and returns it as a
  string (\<open>GetStringSecret\<close>), decoded from JSON into a record (\<open>GetCredentialSecret\<close>,
  \<open>GetAPICredentialSecret\<close>) or turned into a Postgres connection string
  (\<open>GetPostgresDSNSecret\<close>). Its functions are embedded below as HOL functions. A Go string
  is a list of bytes (\<open>string\<close>), a pair \<open>(value, err)\<close> of results is a pair whose error
  is an \<open>error option\<close> (\<open>None\<close> for \<open>nil\<close>), and a pointer is an address in an explicit
  heap.

  The package rests on two libraries. The AWS SDK is a parameter of the model (the record
  \<open>world\<close>). The decoder \<open>json.Unmarshal\<close> of \<open>encoding/json\<close> is modelled concretely, for
  targets that are structs with string and integer fields, since the properties speak of what
  decoding a given payload yields.
\<close>

section \<open>JSON texts\<close>

text \<open>
  \<open>json.Unmarshal\<close> first checks that the whole input is one JSON value surrounded by
  optional white space. The model reads the input in two passes: \<open>lex\<close> splits it into
  tokens, decoding string literals on the way, and \<open>parseValue\<close> builds the value from the
  tokens with an explicit stack of the containers that are still open. A member list keeps
  the order and the duplicates of the text; a number keeps its literal.
\<close>

datatype json =
    JNull
  | JBool bool
  | JNumber string
  | JString string
  | JArray "json list"
  | JObject "(string \<times> json) list"

datatype token =
  TLBrace | TRBrace | TLBrack | TRBrack | TColon | TComma
  | TString string | TNumber string | TTrue | TFalse | TNull

definition byte :: "char \<Rightarrow> nat" where
  "byte c = of_char c"

definition isSpace :: "char \<Rightarrow> bool" where
  "isSpace c = (c = CHR '' '' \<or> c = CHR 0x09 \<or> c = CHR 0x0D \<or> c = CHR 0x0A)"

definition isDigit :: "char \<Rightarrow> bool" where
  "isDigit c = (byte CHR ''0'' \<le> byte c \<and> byte c \<le> byte CHR ''9'')"

text \<open>
  String literals. The scanner accepts every byte from \<open>0x20\<close> on inside a literal, and the
  escapes \<open>\"\<close>, \<open>\\\<close>, \<open>\/\<close>, \<open>\b\<close>, \<open>\f\<close>, \<open>\n\<close>, \<open>\r\<close>, \<open>\t\<close> and \<open>\u\<close> with four
  hexadecimal digits. Unquoting writes an escaped code point in UTF-8, joins a pair of
  surrogate escapes into one code point, and replaces a lone surrogate and every byte that
  does not start a well-formed UTF-8 sequence by U+FFFD. \<open>scanEscape\<close> and \<open>coerce\<close> return
  the decoded bytes and how many further bytes of the input they consumed.
\<close>

definition hexval :: "char \<Rightarrow> nat option" where
  "hexval c =
     (if byte CHR ''0'' \<le> byte c \<and> byte c \<le> byte CHR ''9'' then Some (byte c - byte CHR ''0'')
      else if byte CHR ''a'' \<le> byte c \<and> byte c \<le> byte CHR ''f'' then Some (byte c - byte CHR ''a'' + 10)
      else if byte CHR ''A'' \<le> byte c \<and> byte c \<le> byte CHR ''F'' then Some (byte c - byte CHR ''A'' + 10)
      else None)"

definition getu4 :: "string \<Rightarrow> nat option" where
  "getu4 s =
     (case s of
        b # u # h1 # h2 # h3 # h4 # _ \<Rightarrow>
          if b = CHR 0x5C \<and> u = CHR ''u'' then
            (case (hexval h1, hexval h2, hexval h3, hexval h4) of
               (Some a, Some b, Some c, Some d) \<Rightarrow> Some (((a * 16 + b) * 16 + c) * 16 + d)
             | _ \<Rightarrow> None)
          else None
      | _ \<Rightarrow> None)"

definition EncodeRune :: "nat \<Rightarrow> string" where
  "EncodeRune r =
     (if r \<le> 0x7F then [char_of r]
      else if r \<le> 0x7FF then [char_of (0xC0 + r div 64), char_of (0x80 + r mod 64)]
      else if (0xD800 \<le> r \<and> r \<le> 0xDFFF) \<or> 0x10FFFF < r then [CHR 0xEF, CHR 0xBF, CHR 0xBD]
      else if r \<le> 0xFFFF then
        [char_of (0xE0 + r div 4096), char_of (0x80 + (r div 64) mod 64), char_of (0x80 + r mod 64)]
      else
        [char_of (0xF0 + r div 262144), char_of (0x80 + (r div 4096) mod 64),
         char_of (0x80 + (r div 64) mod 64), char_of (0x80 + r mod 64)])"

definition cont :: "nat \<Rightarrow> nat \<Rightarrow> char \<Rightarrow> bool" where
  "cont lo hi c = (lo \<le> byte c \<and> byte c \<le> hi)"

definition DecodeRuneLen :: "string \<Rightarrow> nat" where
  "DecodeRuneLen s =
     (case s of
        [] \<Rightarrow> 0
      | c # cs \<Rightarrow>
          let b = byte c in
          if b < 0x80 then 1
          else if 0xC2 \<le> b \<and> b \<le> 0xDF then
            (case cs of c1 # _ \<Rightarrow> if cont 0x80 0xBF c1 then 2 else 1 | _ \<Rightarrow> 1)
          else if 0xE0 \<le> b \<and> b \<le> 0xEF then
            (case cs of
               c1 # c2 # _ \<Rightarrow>
                 if cont (if b = 0xE0 then 0xA0 else 0x80) (if b = 0xED then 0x9F else 0xBF) c1
                    \<and> cont 0x80 0xBF c2
                 then 3 else 1
             | _ \<Rightarrow> 1)
          else if 0xF0 \<le> b \<and> b \<le> 0xF4 then
            (case cs of
               c1 # c2 # c3 # _ \<Rightarrow>
                 if cont (if b = 0xF0 then 0x90 else 0x80) (if b = 0xF4 then 0x8F else 0xBF) c1
                    \<and> cont 0x80 0xBF c2 \<and> cont 0x80 0xBF c3
                 then 4 else 1
             | _ \<Rightarrow> 1)
          else 1)"

definition unescape :: "char \<Rightarrow> char option" where
  "unescape e =
     (if e = CHR 0x22 \<or> e = CHR 0x5C \<or> e = CHR ''/'' then Some e
      else if e = CHR ''b'' then Some (CHR 0x08)
      else if e = CHR ''f'' then Some (CHR 0x0C)
      else if e = CHR ''n'' then Some (CHR 0x0A)
      else if e = CHR ''r'' then Some (CHR 0x0D)
      else if e = CHR ''t'' then Some (CHR 0x09)
      else None)"

definition scanEscape :: "string \<Rightarrow> (string \<times> nat) option" where
  "scanEscape cs =
     (case cs of
        [] \<Rightarrow> None
      | e # cs' \<Rightarrow>
          if e = CHR ''u'' then
            (case getu4 (CHR 0x5C # cs) of
               None \<Rightarrow> None
             | Some rr \<Rightarrow>
                 if 0xD800 \<le> rr \<and> rr < 0xE000 then
                   (case getu4 (drop 4 cs') of
                      Some rr1 \<Rightarrow>
                        if rr < 0xDC00 \<and> 0xDC00 \<le> rr1 \<and> rr1 < 0xE000
                        then Some (EncodeRune ((rr - 0xD800) * 1024 + (rr1 - 0xDC00) + 0x10000), 11)
                        else Some (EncodeRune 0xFFFD, 5)
                    | None \<Rightarrow> Some (EncodeRune 0xFFFD, 5))
                 else Some (EncodeRune rr, 5))
          else map_option (\<lambda>x. ([x], 1)) (unescape e))"

definition coerce :: "char \<Rightarrow> string \<Rightarrow> string \<times> nat" where
  "coerce c cs =
     (if byte c < 0x80 then ([c], 0)
      else if DecodeRuneLen (c # cs) \<le> 1 then (EncodeRune 0xFFFD, 0)
      else (c # take (DecodeRuneLen (c # cs) - 1) cs, DecodeRuneLen (c # cs) - 1))"

function scanString :: "string \<Rightarrow> (string \<times> string) option" where
  "scanString [] = None"
| "scanString (c # cs) =
     (if c = CHR 0x22 then Some ([], cs)
      else if c = CHR 0x5C then
        (case scanEscape cs of
           None \<Rightarrow> None
         | Some (out, n) \<Rightarrow> map_option (\<lambda>(b, r). (out @ b, r)) (scanString (drop n cs)))
      else if byte c < 0x20 then None
      else map_option (\<lambda>(b, r). (fst (coerce c cs) @ b, r)) (scanString (drop (snd (coerce c cs)) cs)))"
  by pat_completeness auto
termination
  by (relation "measure length") auto

text \<open>
  Numbers: an optional minus sign, \<open>0\<close> or a digit from 1 to 9 followed by digits, an
  optional fraction and an optional exponent.
\<close>

definition scanExp :: "string \<Rightarrow> string \<Rightarrow> (string \<times> string) option" where
  "scanExp acc s =
     (case s of
        [] \<Rightarrow> Some (acc, [])
      | c # r \<Rightarrow>
          if c = CHR ''e'' \<or> c = CHR ''E'' then
            (let (sg, r1) = (case r of
                               [] \<Rightarrow> ([], r)
                             | x # r' \<Rightarrow> if x = CHR ''+'' \<or> x = CHR ''-'' then ([x], r') else ([], r))
             in if takeWhile isDigit r1 = [] then None
                else Some (acc @ c # sg @ takeWhile isDigit r1, dropWhile isDigit r1))
          else Some (acc, s))"

definition scanFrac :: "string \<Rightarrow> string \<Rightarrow> (string \<times> string) option" where
  "scanFrac acc s =
     (case s of
        [] \<Rightarrow> Some (acc, [])
      | c # r \<Rightarrow>
          if c = CHR ''.'' then
            (if takeWhile isDigit r = [] then None
             else scanExp (acc @ c # takeWhile isDigit r) (dropWhile isDigit r))
          else scanExp acc s)"

definition scanNumber :: "string \<Rightarrow> (string \<times> string) option" where
  "scanNumber s =
     (let (sg, s1) = (case s of
                        [] \<Rightarrow> ([], s)
                      | x # r \<Rightarrow> if x = CHR ''-'' then ([x], r) else ([], s))
      in case s1 of
           [] \<Rightarrow> None
         | c # r \<Rightarrow>
             if c = CHR ''0'' then scanFrac (sg @ [c]) r
             else if isDigit c then scanFrac (sg @ c # takeWhile isDigit r) (dropWhile isDigit r)
             else None)"

function lex :: "string \<Rightarrow> token list option" where
  "lex [] = Some []"
| "lex (c # cs) =
     (if isSpace c then lex cs
      else if c = CHR ''{'' then map_option ((#) TLBrace) (lex cs)
      else if c = CHR ''}'' then map_option ((#) TRBrace) (lex cs)
      else if c = CHR ''['' then map_option ((#) TLBrack) (lex cs)
      else if c = CHR '']'' then map_option ((#) TRBrack) (lex cs)
      else if c = CHR '':'' then map_option ((#) TColon) (lex cs)
      else if c = CHR '','' then map_option ((#) TComma) (lex cs)
      else if c = CHR 0x22 then
        (case scanString cs of
           None \<Rightarrow> None
         | Some (b, r) \<Rightarrow> map_option ((#) (TString b)) (lex r))
      else if c = CHR ''-'' \<or> isDigit c then
        (case scanNumber (c # cs) of
           None \<Rightarrow> None
         | Some (b, r) \<Rightarrow> map_option ((#) (TNumber b)) (lex r))
      else if c = CHR ''t'' then
        (if take 3 cs = ''rue'' then map_option ((#) TTrue) (lex (drop 3 cs)) else None)
      else if c = CHR ''f'' then
        (if take 4 cs = ''alse'' then map_option ((#) TFalse) (lex (drop 4 cs)) else None)
      else if c = CHR ''n'' then
        (if take 3 cs = ''ull'' then map_option ((#) TNull) (lex (drop 3 cs)) else None)
      else None)"
  by pat_completeness auto
termination
proof -
  have str: "length r \<le> length s" if "scanString s = Some (b, r)" for s b r
    using that
  proof (induction s arbitrary: b r rule: scanString.induct)
    case 1
    then show ?case by simp
  next
    case (2 c cs)
    consider (q) "c = CHR 0x22" | (e) "c \<noteq> CHR 0x22" "c = CHR 0x5C"
      | (o) "c \<noteq> CHR 0x22" "c \<noteq> CHR 0x5C"
      by blast
    then show ?case
    proof cases
      case q
      with "2.prems" show ?thesis by simp
    next
      case e
      with "2.prems" obtain out n b' where
        esc: "scanEscape cs = Some (out, n)" and rec: "scanString (drop n cs) = Some (b', r)"
        by (auto split: option.splits)
      from "2.IH"(1) [OF e esc refl rec] have "length r \<le> length (drop n cs)" .
      then show ?thesis by simp
    next
      case o
      with "2.prems" have nc: "\<not> byte c < 0x20"
        by (auto split: if_splits)
      with o "2.prems" obtain b' where
        rec: "scanString (drop (snd (coerce c cs)) cs) = Some (b', r)"
        by auto
      from "2.IH"(2) [OF o nc rec] have "length r \<le> length (drop (snd (coerce c cs)) cs)" .
      then show ?thesis by simp
    qed
  qed
  have ex: "length r \<le> length s" if "scanExp acc s = Some (b, r)" for acc s b r
    using that
    by (auto simp: scanExp_def Let_def split: list.splits if_splits prod.splits
        intro: le_trans [OF length_dropWhile_le])
  have fr: "length r \<le> length s" if "scanFrac acc s = Some (b, r)" for acc s b r
    using that
    by (auto simp: scanFrac_def split: list.splits if_splits
        dest!: ex intro: le_trans [OF _ length_dropWhile_le] le_SucI)
  have num: "length r \<le> length cs" if "scanNumber (c # cs) = Some (b, r)" for c cs b r
    using that
    by (auto simp: scanNumber_def Let_def split: list.splits if_splits prod.splits
        dest!: fr intro: le_trans [OF _ length_dropWhile_le] le_SucI)
  show ?thesis
  proof (relation "measure length", simp_all)
    fix c :: char and cs x2 x y
    assume "scanString cs = Some x2" "(x, y) = x2"
    then have "scanString cs = Some (x, y)" by simp
    from str [OF this] show "length y < Suc (length cs)" by simp
  next
    fix c :: char and cs x2 x y
    assume "scanNumber (c # cs) = Some x2" "(x, y) = x2"
    then have "scanNumber (c # cs) = Some (x, y)" by simp
    from num [OF this] show "length y < Suc (length cs)" by simp
  qed
qed

text \<open>
  The value of a token list. \<open>parseValue\<close> expects a value; \<open>endValue\<close> has read one and
  hands it to the innermost open container. Opening a container deeper than
  \<open>maxNestingDepth\<close> is an error, as in the scanner of \<open>encoding/json\<close>.
\<close>

datatype frame = FArray "json list" | FObject "(string \<times> json) list" string

definition maxNestingDepth :: nat where
  "maxNestingDepth = 10000"

fun parseValue :: "frame list \<Rightarrow> token list \<Rightarrow> json option"
  and endValue :: "json \<Rightarrow> frame list \<Rightarrow> token list \<Rightarrow> json option" where
  "parseValue st [] = None"
| "parseValue st (t # ts) =
     (case t of
        TNull \<Rightarrow> endValue JNull st ts
      | TTrue \<Rightarrow> endValue (JBool True) st ts
      | TFalse \<Rightarrow> endValue (JBool False) st ts
      | TNumber n \<Rightarrow> endValue (JNumber n) st ts
      | TString s \<Rightarrow> endValue (JString s) st ts
      | TLBrack \<Rightarrow>
          if maxNestingDepth \<le> length st then None
          else (case ts of
                  TRBrack # ts' \<Rightarrow> endValue (JArray []) st ts'
                | _ \<Rightarrow> parseValue (FArray [] # st) ts)
      | TLBrace \<Rightarrow>
          if maxNestingDepth \<le> length st then None
          else (case ts of
                  TRBrace # ts' \<Rightarrow> endValue (JObject []) st ts'
                | TString k # TColon # ts' \<Rightarrow> parseValue (FObject [] k # st) ts'
                | _ \<Rightarrow> None)
      | _ \<Rightarrow> None)"
| "endValue v [] ts = (if ts = [] then Some v else None)"
| "endValue v (FArray xs # st) ts =
     (case ts of
        TComma # ts' \<Rightarrow> parseValue (FArray (xs @ [v]) # st) ts'
      | TRBrack # ts' \<Rightarrow> endValue (JArray (xs @ [v])) st ts'
      | _ \<Rightarrow> None)"
| "endValue v (FObject ms k # st) ts =
     (case ts of
        TComma # TString k' # TColon # ts' \<Rightarrow> parseValue (FObject (ms @ [(k, v)]) k' # st) ts'
      | TRBrace # ts' \<Rightarrow> endValue (JObject (ms @ [(k, v)])) st ts'
      | _ \<Rightarrow> None)"

definition parse :: "string \<Rightarrow> json option" where
  "parse data = (case lex data of None \<Rightarrow> None | Some ts \<Rightarrow> parseValue [] ts)"


section \<open>Errors\<close>

text \<open>
  The error values that occur: an \<open>awserr.Error\<close> with its code and message, any other
  error a library returns, \<open>errors.New\<close> and \<open>errors.Wrapf\<close> of \<open>github.com/pkg/errors\<close>
  (the wrapped error and the message), and the two errors of \<open>json.Unmarshal\<close>.
  \<open>SyntaxError\<close> stands for every \<open>json.SyntaxError\<close>: its message and offset are not
  modelled. \<open>UnmarshalTypeError\<close> keeps the description of the JSON value and the name of
  the field, not the offset.
\<close>

datatype error =
    AwsError string string
  | OtherError string
  | errors_New string
  | errors_Wrapf error string
  | SyntaxError
  | UnmarshalTypeError string string

section \<open>Decoding a JSON value into a struct\<close>

text \<open>
  A struct type is given by the list of its fields in the order of declaration. A field has
  the name of its \<open>json\<close> tag, its kind (string or integer) and the assignment to it.
  \<open>findField\<close> selects the field for a key as \<open>encoding/json\<close> does: the field whose name is
  the key, and otherwise the first whose name equals the key up to case folding (of ASCII
  letters, and of the Kelvin sign and the long s, which fold to k and s). A key that selects
  no field is skipped. \<open>store\<close> assigns a member's value: \<open>null\<close> leaves the field as it
  is, a string goes to a string field, a number whose literal \<open>strconv.ParseInt\<close> reads as a
  64-bit integer goes to an integer field (Go's \<open>int\<close> is taken to be 64 bits wide), and
  anything else is an \<open>UnmarshalTypeError\<close>, after which decoding goes on; \<open>object\<close>
  returns the first such error.
\<close>

datatype 'r field =
    StringField string "string \<Rightarrow> 'r \<Rightarrow> 'r"
  | IntField string "int \<Rightarrow> 'r \<Rightarrow> 'r"

fun name :: "'r field \<Rightarrow> string" where
  "name (StringField n _) = n"
| "name (IntField n _) = n"

fun foldName :: "string \<Rightarrow> string" where
  "foldName [] = []"
| "foldName (c # cs) =
     (if byte CHR ''a'' \<le> byte c \<and> byte c \<le> byte CHR ''z'' then char_of (byte c - 32) # foldName cs
      else if c = CHR 0xE2 \<and> take 2 cs = [CHR 0x84, CHR 0xAA] then CHR ''K'' # foldName (drop 2 cs)
      else if c = CHR 0xC5 \<and> take 1 cs = [CHR 0xBF] then CHR ''S'' # foldName (drop 1 cs)
      else c # foldName cs)"

definition findField :: "'r field list \<Rightarrow> string \<Rightarrow> 'r field option" where
  "findField fs key =
     (case find (\<lambda>f. name f = key) fs of
        Some f \<Rightarrow> Some f
      | None \<Rightarrow> find (\<lambda>f. foldName (name f) = foldName key) fs)"

fun valueKind :: "json \<Rightarrow> string" where
  "valueKind JNull = ''null''"
| "valueKind (JBool _) = ''bool''"
| "valueKind (JNumber _) = ''number''"
| "valueKind (JString _) = ''string''"
| "valueKind (JArray _) = ''array''"
| "valueKind (JObject _) = ''object''"

definition ParseInt :: "string \<Rightarrow> int option" where
  "ParseInt s =
     (let (neg, ds) = (case s of
                         [] \<Rightarrow> (False, s)
                       | c # r \<Rightarrow> if c = CHR ''-'' then (True, r)
                                  else if c = CHR ''+'' then (False, r) else (False, s));
          n = foldl (\<lambda>a c. a * 10 + int (byte c - byte CHR ''0'')) 0 ds;
          v = (if neg then - n else n)
      in if ds = [] \<or> \<not> list_all isDigit ds then None
         else if v < - (2 ^ 63) \<or> 2 ^ 63 \<le> v then None
         else Some v)"

fun store :: "'r field \<Rightarrow> json \<Rightarrow> 'r \<Rightarrow> 'r \<times> error option" where
  "store f JNull v = (v, None)"
| "store (StringField n setter) (JString s) v = (setter s v, None)"
| "store (IntField n setter) (JNumber lit) v =
     (case ParseInt lit of
        Some i \<Rightarrow> (setter i v, None)
      | None \<Rightarrow> (v, Some (UnmarshalTypeError (''number '' @ lit) n)))"
| "store f j v = (v, Some (UnmarshalTypeError (valueKind j) (name f)))"

fun object :: "'r field list \<Rightarrow> (string \<times> json) list \<Rightarrow> 'r \<times> error option \<Rightarrow> 'r \<times> error option" where
  "object fs [] acc = acc"
| "object fs ((key, j) # ms) (v, saved) =
     (case findField fs key of
        None \<Rightarrow> object fs ms (v, saved)
      | Some f \<Rightarrow>
          (case store f j v of
             (v', err) \<Rightarrow> object fs ms (v', if saved = None then err else saved)))"

text \<open>
  \<open>Unmarshal fs data v\<close> is \<open>json.Unmarshal(data, &v)\<close> for a struct \<open>v\<close> with the fields
  \<open>fs\<close>: the struct after the call, and the error. Input that is not valid JSON leaves
  \<open>v\<close> untouched; \<open>null\<close> is accepted and changes nothing; any other value that is not
  an object is an \<open>UnmarshalTypeError\<close>.
\<close>

definition Unmarshal :: "'r field list \<Rightarrow> string \<Rightarrow> 'r \<Rightarrow> 'r \<times> error option" where
  "Unmarshal fs data v =
     (case parse data of
        None \<Rightarrow> (v, Some SyntaxError)
      | Some (JObject ms) \<Rightarrow> object fs ms (v, None)
      | Some JNull \<Rightarrow> (v, None)
      | Some j \<Rightarrow> (v, Some (UnmarshalTypeError (valueKind j) [])))"

section \<open>The records of the package\<close>

text \<open>
  The three structs with their \<open>json\<close> tags. The fields of \<open>dsn\<close> carry the prefix
  \<open>dsn_\<close>, since \<open>Credential\<close> has fields of the same names. \<open>Credential_zero\<close> is
  \<open>Credential{}\<close>, and likewise for the other two.
\<close>

record APICredential =
  BaseURL :: string
  APIKey :: string
  APISecret :: string

record Credential =
  Host :: string
  Port :: int
  Key :: string
  Username :: string
  Password :: string
  DBName :: string

record dsn =
  dsn_Engine :: string
  dsn_Host :: string
  dsn_DBName :: string
  dsn_Username :: string
  dsn_Password :: string
  dsn_Port :: int
  dsn_SearchPath :: string
  dsn_DBInstanceIdentifier :: string

definition APICredential_fields :: "APICredential field list" where
  "APICredential_fields =
     [StringField ''baseURL'' (\<lambda>x r. r\<lparr>BaseURL := x\<rparr>),
      StringField ''key'' (\<lambda>x r. r\<lparr>APIKey := x\<rparr>),
      StringField ''secret'' (\<lambda>x r. r\<lparr>APISecret := x\<rparr>)]"

definition Credential_fields :: "Credential field list" where
  "Credential_fields =
     [StringField ''host'' (\<lambda>x r. r\<lparr>Host := x\<rparr>),
      IntField ''port'' (\<lambda>x r. r\<lparr>Port := x\<rparr>),
      StringField ''key'' (\<lambda>x r. r\<lparr>Key := x\<rparr>),
      StringField ''username'' (\<lambda>x r. r\<lparr>Username := x\<rparr>),
      StringField ''password'' (\<lambda>x r. r\<lparr>Password := x\<rparr>),
      StringField ''dbname'' (\<lambda>x r. r\<lparr>DBName := x\<rparr>)]"

definition dsn_fields :: "dsn field list" where
  "dsn_fields =
     [StringField ''engine'' (\<lambda>x r. r\<lparr>dsn_Engine := x\<rparr>),
      StringField ''host'' (\<lambda>x r. r\<lparr>dsn_Host := x\<rparr>),
      StringField ''dbname'' (\<lambda>x r. r\<lparr>dsn_DBName := x\<rparr>),
      StringField ''username'' (\<lambda>x r. r\<lparr>dsn_Username := x\<rparr>),
      StringField ''password'' (\<lambda>x r. r\<lparr>dsn_Password := x\<rparr>),
      IntField ''port'' (\<lambda>x r. r\<lparr>dsn_Port := x\<rparr>),
      StringField ''search_path'' (\<lambda>x r. r\<lparr>dsn_SearchPath := x\<rparr>),
      StringField ''dbInstanceIdentifier'' (\<lambda>x r. r\<lparr>dsn_DBInstanceIdentifier := x\<rparr>)]"

definition APICredential_zero :: APICredential where
  "APICredential_zero = \<lparr>BaseURL = [], APIKey = [], APISecret = []\<rparr>"

definition Credential_zero :: Credential where
  "Credential_zero = \<lparr>Host = [], Port = 0, Key = [], Username = [], Password = [], DBName = []\<rparr>"

definition dsn_zero :: dsn where
  "dsn_zero = \<lparr>dsn_Engine = [], dsn_Host = [], dsn_DBName = [], dsn_Username = [],
     dsn_Password = [], dsn_Port = 0, dsn_SearchPath = [], dsn_DBInstanceIdentifier = []\<rparr>"


section \<open>The AWS SDK\<close>

text \<open>
  A \<open>world\<close> fixes what the SDK answers: \<open>NewSessionWithOptions\<close> returns a session or an
  error, and \<open>GetSecretValue\<close> answers a request made with a session by an output or an
  error. \<open>secretsmanager.New\<close> and \<open>aws.String\<close> cannot fail and are not modelled apart.
  The type \<open>'s\<close> is the type of sessions; \<open>sess :: 's option\<close> is the pointer
  \<open>*session.Session\<close> of the source, \<open>None\<close> for \<open>nil\<close>.

  Each function returns, besides its results, the list of the library calls it made, in
  order. The trace is what makes "JSON parsing is never attempted" a statement about the
  function: no \<open>UnmarshalCall\<close> occurs in it.
\<close>

datatype SharedConfigState = SharedConfigStateFromEnv | SharedConfigDisable | SharedConfigEnable

record Options =
  SharedConfigState :: SharedConfigState

record GetSecretValueInput =
  SecretId :: "string option"
  VersionId :: "string option"
  VersionStage :: "string option"

record GetSecretValueOutput =
  SecretBinary :: string
  SecretString :: "string option"

record 's world =
  NewSessionWithOptions :: "Options \<Rightarrow> error + 's"
  GetSecretValue :: "'s \<Rightarrow> GetSecretValueInput \<Rightarrow> error + GetSecretValueOutput"

datatype call =
    NewSessionCall Options
  | GetSecretValueCall GetSecretValueInput
  | UnmarshalCall string

fun isUnmarshal :: "call \<Rightarrow> bool" where
  "isUnmarshal (UnmarshalCall _) = True"
| "isUnmarshal _ = False"

fun isGetSecretValue :: "call \<Rightarrow> bool" where
  "isGetSecretValue (GetSecretValueCall _) = True"
| "isGetSecretValue _ = False"

section \<open>The functions of the package\<close>

text \<open>
  \<open>GetStringSecret\<close>, as in the version of the source that builds the default session with
  \<open>session.NewSessionWithOptions\<close>. The file \<open>awssecret.go\<close> keeps an earlier copy that
  calls \<open>session.New()\<close> instead, which returns no error; it behaves as this function does
  in a world whose \<open>NewSessionWithOptions\<close> succeeds. Its copy of
  \<open>GetPostgresDSNSecret\<close> has the same text as the one modelled here.
\<close>

definition GetStringSecret :: "'s world \<Rightarrow> 's option \<Rightarrow> string \<Rightarrow> (string \<times> error option) \<times> call list" where
  "GetStringSecret w sess secretName =
     (case (case sess of
              None \<Rightarrow>
                (NewSessionWithOptions w \<lparr>SharedConfigState = SharedConfigEnable\<rparr>,
                 [NewSessionCall \<lparr>SharedConfigState = SharedConfigEnable\<rparr>])
            | Some s \<Rightarrow> (Inr s, [])) of
        (Inl err, t) \<Rightarrow> (([], Some err), t)
      | (Inr s, t) \<Rightarrow>
          (let input = \<lparr>SecretId = Some secretName, VersionId = None,
                         VersionStage = Some ''AWSCURRENT''\<rparr>;
               t' = t @ [GetSecretValueCall input]
           in case GetSecretValue w s input of
                Inl err \<Rightarrow>
                  (case err of
                     AwsError code msg \<Rightarrow>
                       (([], Some (errors_Wrapf err
                                    (''Failed to get secret from AWS Secrets Manager: '' @ code))), t')
                   | _ \<Rightarrow>
                       (([], Some (errors_Wrapf err
                                    ''Fasiled to get secret from AWS Secrets Manager: Unknown error description'')), t'))
              | Inr result \<Rightarrow>
                  (case SecretString result of
                     Some secret \<Rightarrow> ((secret, None), t')
                   | None \<Rightarrow> (([], Some (errors_New ''Secret is not a string'')), t'))))"

text \<open>
  The two credential decoders allocate the record first (\<open>cred = &APICredential{}\<close>) and
  return the pointer on every path. The heap is the list of the records allocated so far,
  an address is an index into it, and a pointer is a \<open>nat option\<close> (\<open>None\<close> for \<open>nil\<close>).
  Allocation appends to the heap; \<open>json.Unmarshal\<close> writes through the pointer.
\<close>

definition GetAPICredentialSecret ::
  "'s world \<Rightarrow> APICredential list \<Rightarrow> 's option \<Rightarrow> string
     \<Rightarrow> (nat option \<times> error option) \<times> APICredential list \<times> call list" where
  "GetAPICredentialSecret w heap sess secretName =
     (let cred = length heap;
          heap' = heap @ [APICredential_zero]
      in case GetStringSecret w sess secretName of
           ((secret, Some err), t) \<Rightarrow>
             ((Some cred, Some (errors_Wrapf err ''Couldn't build credential. Failed to retrieve secret.'')),
              heap', t)
         | ((secret, None), t) \<Rightarrow>
             (case Unmarshal APICredential_fields secret (heap' ! cred) of
                (v, Some err) \<Rightarrow>
                  ((Some cred, Some (errors_Wrapf err ''Couldn't build credential. Failed to decode JSON.'')),
                   heap'[cred := v], t @ [UnmarshalCall secret])
              | (v, None) \<Rightarrow>
                  ((Some cred, None), heap'[cred := v], t @ [UnmarshalCall secret])))"

definition GetCredentialSecret ::
  "'s world \<Rightarrow> Credential list \<Rightarrow> 's option \<Rightarrow> string
     \<Rightarrow> (nat option \<times> error option) \<times> Credential list \<times> call list" where
  "GetCredentialSecret w heap sess secretName =
     (let cred = length heap;
          heap' = heap @ [Credential_zero]
      in case GetStringSecret w sess secretName of
           ((secret, Some err), t) \<Rightarrow>
             ((Some cred, Some (errors_Wrapf err ''Couldn't build credential. Failed to retrieve secret.'')),
              heap', t)
         | ((secret, None), t) \<Rightarrow>
             (case Unmarshal Credential_fields secret (heap' ! cred) of
                (v, Some err) \<Rightarrow>
                  ((Some cred, Some (errors_Wrapf err ''Couldn't build credential. Failed to decode JSON.'')),
                   heap'[cred := v], t @ [UnmarshalCall secret])
              | (v, None) \<Rightarrow>
                  ((Some cred, None), heap'[cred := v], t @ [UnmarshalCall secret])))"

text \<open>
  \<open>strings.Index\<close> returns the index of the first occurrence of \<open>substr\<close>, or \<open>-1\<close>.
  The \<open>strings.Builder\<close> is the string written so far.
\<close>

fun Index :: "string \<Rightarrow> string \<Rightarrow> int" where
  "Index [] substr = (if substr = [] then 0 else - 1)"
| "Index (c # s) substr =
     (if take (length substr) (c # s) = substr then 0
      else (let i = Index s substr in if i < 0 then - 1 else i + 1))"

definition WriteString :: "string \<Rightarrow> string \<Rightarrow> string" where
  "WriteString b s = b @ s"

definition GetPostgresDSNSecret ::
  "'s world \<Rightarrow> 's option \<Rightarrow> string \<Rightarrow> (string \<times> error option) \<times> call list" where
  "GetPostgresDSNSecret w sess secretName =
     (case GetStringSecret w sess secretName of
        ((str, Some err), t) \<Rightarrow>
          (([], Some (errors_Wrapf err ''Couldn't build DSN. Failed to retrieve secret'')), t)
      | ((str, None), t) \<Rightarrow>
          if 0 \<le> Index str ''host='' \<and> 0 \<le> Index str ''dbname='' then ((str, None), t)
          else
            (case Unmarshal dsn_fields str dsn_zero of
               (d, Some err) \<Rightarrow> ((str, Some err), t @ [UnmarshalCall str])
             | (d, None) \<Rightarrow>
                 (let s0 = [];
                      s1 = (if dsn_Host d \<noteq> []
                            then WriteString (WriteString (WriteString s0 ''host='') (dsn_Host d)) '' ''
                            else s0);
                      s2 = (if dsn_DBName d \<noteq> []
                            then WriteString (WriteString (WriteString s1 ''dbname='') (dsn_DBName d)) '' ''
                            else s1);
                      s3 = (if dsn_Username d \<noteq> []
                            then WriteString (WriteString (WriteString s2 ''user='') (dsn_Username d)) '' ''
                            else s2);
                      s4 = (if dsn_Password d \<noteq> []
                            then WriteString (WriteString (WriteString s3 ''password='') (dsn_Password d)) '' ''
                            else s3);
                      s5 = (if dsn_SearchPath d \<noteq> []
                            then WriteString (WriteString (WriteString s4 ''search_path='') (dsn_SearchPath d)) '' ''
                            else s4)
                  in ((s5, None), t @ [UnmarshalCall str]))))"


section \<open>Vocabulary of the properties\<close>







definition dsnTokens :: "(string \<times> string) list \<Rightarrow> string" where
  "dsnTokens kvs = concat (map (\<lambda>(k, v). k @ ''='' @ v @ '' '') (filter (\<lambda>(k, v). v \<noteq> []) kvs))"

definition stubWorld :: "error + nat \<Rightarrow> error + GetSecretValueOutput \<Rightarrow> nat world" where
  "stubWorld s r = \<lparr>NewSessionWithOptions = (\<lambda>_. s), GetSecretValue = (\<lambda>_ _. r)\<rparr>"

definition stringSecret :: "string \<Rightarrow> error + GetSecretValueOutput" where
  "stringSecret s = Inr \<lparr>SecretBinary = [], SecretString = Some s\<rparr>"

definition binarySecret :: "string \<Rightarrow> error + GetSecretValueOutput" where
  "binarySecret b = Inr \<lparr>SecretBinary = b, SecretString = None\<rparr>"

section \<open>Auxiliary facts\<close>

lemma Index_nonneg_iff: "0 \<le> Index s substr \<longleftrightarrow> (\<exists>a b. s = a @ substr @ b)"
proof (induction s)
  case Nil
  then show ?case by auto
next
  case (Cons c s)
  show ?case
  proof (cases "take (length substr) (c # s) = substr")
    case True
    then have "c # s = [] @ substr @ drop (length substr) (c # s)"
      by (metis append_Nil append_take_drop_id)
    with True show ?thesis by (metis Index.simps(2) order_refl)
  next
    case False
    have idx: "0 \<le> Index (c # s) substr \<longleftrightarrow> 0 \<le> Index s substr"
      using False by (auto simp: Let_def)
    have "(\<exists>a b. c # s = a @ substr @ b) \<longleftrightarrow> (\<exists>a b. s = a @ substr @ b)"
    proof
      assume "\<exists>a b. c # s = a @ substr @ b"
      then obtain a b where ab: "c # s = a @ substr @ b" by blast
      show "\<exists>a b. s = a @ substr @ b"
      proof (cases a)
        case Nil
        with ab have "take (length substr) (c # s) = substr" by simp
        with False show ?thesis by simp
      next
        case (Cons x a')
        with ab have "s = a' @ substr @ b" by simp
        then show ?thesis by blast
      qed
    next
      assume "\<exists>a b. s = a @ substr @ b"
      then obtain a b where "s = a @ substr @ b" by blast
      then have "c # s = (c # a) @ substr @ b" by simp
      then show "\<exists>a b. c # s = a @ substr @ b" by blast
    qed
    with idx Cons.IH show ?thesis by simp
  qed
qed

lemma GetStringSecret_no_Unmarshal: "filter isUnmarshal (snd (GetStringSecret w sess secretName)) = []"
  by (simp add: GetStringSecret_def Let_def split: option.splits sum.splits error.splits prod.splits)

lemma store_error_kind:
  "store f j v = (v', Some e) \<Longrightarrow> \<exists>a b. e = UnmarshalTypeError a b"
  by (induction f j v rule: store.induct) (auto split: option.splits)

lemma object_error_kind:
  "object fs ms (v, saved) = (r, Some e) \<Longrightarrow> saved = Some e \<or> (\<exists>a b. e = UnmarshalTypeError a b)"
proof (induction ms arbitrary: v saved)
  case Nil
  then show ?case by simp
next
  case (Cons m ms)
  obtain key j where m: "m = (key, j)" by (cases m)
  show ?case
  proof (cases "findField fs key")
    case None
    with Cons m show ?thesis by simp
  next
    case (Some f)
    obtain v' err where st: "store f j v = (v', err)" by (cases "store f j v")
    with Cons.prems m Some
    have "object fs ms (v', if saved = None then err else saved) = (r, Some e)" by simp
    from Cons.IH [OF this]
    have "(if saved = None then err else saved) = Some e \<or> (\<exists>a b. e = UnmarshalTypeError a b)" .
    with st show ?thesis
      by (cases "saved = None") (auto dest: store_error_kind)
  qed
qed

lemma Unmarshal_error_kind:
  "Unmarshal fs data v = (r, Some e) \<Longrightarrow> e = SyntaxError \<or> (\<exists>a b. e = UnmarshalTypeError a b)"
  by (auto simp: Unmarshal_def split: option.splits json.splits dest: object_error_kind)

lemma fetch_stub_string:
  "GetStringSecret (stubWorld (Inr k) (stringSecret p)) sess secretName
     = ((p, None),
        (case sess of None \<Rightarrow> [NewSessionCall \<lparr>SharedConfigState = SharedConfigEnable\<rparr>] | Some _ \<Rightarrow> [])
        @ [GetSecretValueCall \<lparr>SecretId = Some secretName, VersionId = None,
             VersionStage = Some ''AWSCURRENT''\<rparr>])"
  by (cases sess) (simp_all add: GetStringSecret_def stubWorld_def stringSecret_def)

lemma no_pass_through:
  "\<not> 0 \<le> Index s ''host='' \<Longrightarrow>
   \<not> ((\<exists>a b. s = a @ ''host='' @ b) \<and> (\<exists>a b. s = a @ ''dbname='' @ b))"
  using Index_nonneg_iff [of s "''host=''"] by blast









section \<open>Properties of the secret fetcher\<close>

text \<open>
  C9: whenever \<open>GetStringSecret\<close> returns a non-nil error (the default session could not
  be constructed, the backend call failed with a recognised or an unknown kind of error, or
  the secret has no string value), the secret it returns is the empty string.
\<close>

theorem GetStringSecret_error_has_empty_secret:
  "GetStringSecret w sess secretName = ((secret, Some err), t) \<Longrightarrow> secret = []"
  by (auto simp: GetStringSecret_def Let_def split: option.splits sum.splits error.splits prod.splits)

theorem GetStringSecret_error_has_empty_secret_witness:
  "snd (fst (GetStringSecret (stubWorld (Inl (OtherError ''no region'')) (stringSecret ''s3cr3t'')) None ''db''))
     = Some (OtherError ''no region'')
   \<and> fst (fst (GetStringSecret (stubWorld (Inl (OtherError ''no region'')) (stringSecret ''s3cr3t'')) None ''db'')) = []
   \<and> snd (fst (GetStringSecret (stubWorld (Inr 0) (Inl (AwsError ''ResourceNotFoundException'' ''gone''))) None ''db''))
     = Some (errors_Wrapf (AwsError ''ResourceNotFoundException'' ''gone'')
               ''Failed to get secret from AWS Secrets Manager: ResourceNotFoundException'')
   \<and> fst (fst (GetStringSecret (stubWorld (Inr 0) (Inl (AwsError ''ResourceNotFoundException'' ''gone''))) None ''db'')) = []
   \<and> snd (fst (GetStringSecret (stubWorld (Inr 0) (binarySecret ''blob'')) (Some 1) ''db''))
     = Some (errors_New ''Secret is not a string'')
   \<and> fst (fst (GetStringSecret (stubWorld (Inr 0) (binarySecret ''blob'')) (Some 1) ''db'')) = []"
proof -
  let ?a = "GetStringSecret (stubWorld (Inl (OtherError ''no region'')) (stringSecret ''s3cr3t'')) None ''db''"
  let ?b = "GetStringSecret (stubWorld (Inr 0) (Inl (AwsError ''ResourceNotFoundException'' ''gone''))) None ''db''"
  let ?c = "GetStringSecret (stubWorld (Inr 0) (binarySecret ''blob'')) (Some 1) ''db''"
  have a: "?a = ((fst (fst ?a), Some (OtherError ''no region'')), snd ?a)"
    by (simp add: GetStringSecret_def stubWorld_def)
  have b: "?b = ((fst (fst ?b), Some (errors_Wrapf (AwsError ''ResourceNotFoundException'' ''gone'')
               ''Failed to get secret from AWS Secrets Manager: ResourceNotFoundException'')), snd ?b)"
    by (simp add: GetStringSecret_def stubWorld_def)
  have c: "?c = ((fst (fst ?c), Some (errors_New ''Secret is not a string'')), snd ?c)"
    by (simp add: GetStringSecret_def stubWorld_def binarySecret_def)
  from GetStringSecret_error_has_empty_secret [OF a]
    GetStringSecret_error_has_empty_secret [OF b]
    GetStringSecret_error_has_empty_secret [OF c]
  have "fst (fst ?a) = []" "fst (fst ?b) = []" "fst (fst ?c) = []" .
  moreover from a have "snd (fst ?a) = Some (OtherError ''no region'')"
    by (metis fst_conv snd_conv)
  moreover from b have "snd (fst ?b) = Some (errors_Wrapf (AwsError ''ResourceNotFoundException'' ''gone'')
               ''Failed to get secret from AWS Secrets Manager: ResourceNotFoundException'')"
    by (metis fst_conv snd_conv)
  moreover from c have "snd (fst ?c) = Some (errors_New ''Secret is not a string'')"
    by (metis fst_conv snd_conv)
  ultimately show ?thesis by simp
qed


text \<open>
  C7: whenever the backend call succeeds but the secret it returns has no string value (a
  binary secret), \<open>GetStringSecret\<close> returns the error \<open>Secret is not a string\<close> and
  never a value; every decoder built on it returns that error wrapped, and the trace of
  library calls of none of them contains a call of \<open>json.Unmarshal\<close>.
\<close>

theorem binary_secret_is_an_error:
  assumes "(case sess of Some s' \<Rightarrow> Inr s'
            | None \<Rightarrow> NewSessionWithOptions w \<lparr>SharedConfigState = SharedConfigEnable\<rparr>) = Inr s"
    and "GetSecretValue w s \<lparr>SecretId = Some secretName, VersionId = None,
           VersionStage = Some ''AWSCURRENT''\<rparr> = Inr result"
    and "SecretString result = None"
  shows "fst (GetStringSecret w sess secretName) = ([], Some (errors_New ''Secret is not a string''))
    \<and> fst (GetCredentialSecret w heap sess secretName)
        = (Some (length heap),
           Some (errors_Wrapf (errors_New ''Secret is not a string'')
                   ''Couldn't build credential. Failed to retrieve secret.''))
    \<and> filter isUnmarshal (snd (snd (GetCredentialSecret w heap sess secretName))) = []
    \<and> fst (GetAPICredentialSecret w aheap sess secretName)
        = (Some (length aheap),
           Some (errors_Wrapf (errors_New ''Secret is not a string'')
                   ''Couldn't build credential. Failed to retrieve secret.''))
    \<and> filter isUnmarshal (snd (snd (GetAPICredentialSecret w aheap sess secretName))) = []
    \<and> fst (GetPostgresDSNSecret w sess secretName)
        = ([], Some (errors_Wrapf (errors_New ''Secret is not a string'')
                       ''Couldn't build DSN. Failed to retrieve secret''))
    \<and> filter isUnmarshal (snd (GetPostgresDSNSecret w sess secretName)) = []"
proof -
  obtain t where fetch: "GetStringSecret w sess secretName
      = (([], Some (errors_New ''Secret is not a string'')), t)"
    using assms by (cases sess) (simp_all add: GetStringSecret_def)
  have t: "filter isUnmarshal t = []"
    using GetStringSecret_no_Unmarshal [of w sess secretName] fetch by simp
  show ?thesis
    using fetch t
    by (simp add: GetCredentialSecret_def GetAPICredentialSecret_def GetPostgresDSNSecret_def Let_def)
qed

theorem binary_secret_is_an_error_witness:
  "fst (GetStringSecret (stubWorld (Inr 0) (binarySecret ''blob'')) None ''prod/key'')
     = ([], Some (errors_New ''Secret is not a string''))
   \<and> fst (GetCredentialSecret (stubWorld (Inr 0) (binarySecret ''blob'')) [] None ''prod/key'')
     = (Some 0, Some (errors_Wrapf (errors_New ''Secret is not a string'')
                       ''Couldn't build credential. Failed to retrieve secret.''))
   \<and> filter isUnmarshal (snd (GetPostgresDSNSecret (stubWorld (Inr 0) (binarySecret ''blob'')) None ''prod/key'')) = []"
proof -
  have s: "(case None of Some s' \<Rightarrow> Inr s'
            | None \<Rightarrow> NewSessionWithOptions (stubWorld (Inr 0) (binarySecret ''blob''))
                       \<lparr>SharedConfigState = SharedConfigEnable\<rparr>) = Inr 0"
    by (simp add: stubWorld_def)
  have c: "GetSecretValue (stubWorld (Inr 0) (binarySecret ''blob'')) 0
             \<lparr>SecretId = Some ''prod/key'', VersionId = None, VersionStage = Some ''AWSCURRENT''\<rparr>
           = Inr \<lparr>SecretBinary = ''blob'', SecretString = None\<rparr>"
    by (simp add: stubWorld_def binarySecret_def)
  have n: "SecretString \<lparr>SecretBinary = ''blob'', SecretString = None\<rparr> = None"
    by simp
  show ?thesis
    using binary_secret_is_an_error [OF s c n, of "[]" "[]"] by simp
qed

text \<open>
  When a session is given or can be built, \<open>GetStringSecret\<close> makes exactly one request
  to the backend: for the secret of the given name, at the version stage \<open>AWSCURRENT\<close>.
\<close>

theorem one_request_for_the_current_version:
  assumes "(case sess of Some s' \<Rightarrow> Inr s'
            | None \<Rightarrow> NewSessionWithOptions w \<lparr>SharedConfigState = SharedConfigEnable\<rparr>) = Inr s"
  shows "filter isGetSecretValue (snd (GetStringSecret w sess secretName))
      = [GetSecretValueCall \<lparr>SecretId = Some secretName, VersionId = None,
           VersionStage = Some ''AWSCURRENT''\<rparr>]"
  using assms
  by (cases sess)
     (simp_all add: GetStringSecret_def Let_def split: sum.splits error.splits option.splits)

theorem one_request_for_the_current_version_witness:
  "filter isGetSecretValue (snd (GetStringSecret (stubWorld (Inr 0) (stringSecret ''s3cr3t'')) None ''prod/db''))
     = [GetSecretValueCall \<lparr>SecretId = Some ''prod/db'', VersionId = None,
          VersionStage = Some ''AWSCURRENT''\<rparr>]"
proof -
  have s: "(case None of Some s' \<Rightarrow> Inr s'
            | None \<Rightarrow> NewSessionWithOptions (stubWorld (Inr 0) (stringSecret ''s3cr3t''))
                       \<lparr>SharedConfigState = SharedConfigEnable\<rparr>) = Inr 0"
    by (simp add: stubWorld_def)
  show ?thesis
    using one_request_for_the_current_version [OF s, of "''prod/db''"] by simp
qed

text \<open>
  When the backend call fails, the error is returned wrapped. The message ends with the
  backend's error code when the error is an \<open>awserr.Error\<close>, and is a fixed message for
  an error of any other kind.
\<close>

theorem backend_error_message:
  assumes "(case sess of Some s' \<Rightarrow> Inr s'
            | None \<Rightarrow> NewSessionWithOptions w \<lparr>SharedConfigState = SharedConfigEnable\<rparr>) = Inr s"
    and "GetSecretValue w s \<lparr>SecretId = Some secretName, VersionId = None,
           VersionStage = Some ''AWSCURRENT''\<rparr> = Inl err"
  shows "fst (GetStringSecret w sess secretName)
      = ([], Some (errors_Wrapf err
                     (case err of
                        AwsError code msg \<Rightarrow> ''Failed to get secret from AWS Secrets Manager: '' @ code
                      | _ \<Rightarrow> ''Fasiled to get secret from AWS Secrets Manager: Unknown error description'')))"
  using assms
  by (cases sess) (simp_all add: GetStringSecret_def Let_def split: error.splits)

theorem backend_error_message_witness:
  "fst (GetStringSecret (stubWorld (Inr 0) (Inl (AwsError ''ThrottlingException'' ''slow down''))) (Some 2) ''prod/db'')
     = ([], Some (errors_Wrapf (AwsError ''ThrottlingException'' ''slow down'')
                    ''Failed to get secret from AWS Secrets Manager: ThrottlingException''))
   \<and> fst (GetStringSecret (stubWorld (Inr 0) (Inl (OtherError ''connection reset''))) (Some 2) ''prod/db'')
     = ([], Some (errors_Wrapf (OtherError ''connection reset'')
                    ''Fasiled to get secret from AWS Secrets Manager: Unknown error description''))"
proof -
  have s: "(case Some 2 of Some s' \<Rightarrow> Inr s'
            | None \<Rightarrow> NewSessionWithOptions (stubWorld (Inr 0) r)
                       \<lparr>SharedConfigState = SharedConfigEnable\<rparr>) = Inr 2" for r
    by simp
  have a: "GetSecretValue (stubWorld (Inr 0) (Inl e)) 2
             \<lparr>SecretId = Some ''prod/db'', VersionId = None, VersionStage = Some ''AWSCURRENT''\<rparr>
           = Inl e" for e
    by (simp add: stubWorld_def)
  show ?thesis
    using backend_error_message [OF s a, of "AwsError ''ThrottlingException'' ''slow down''"]
      backend_error_message [OF s a, of "OtherError ''connection reset''"]
    by simp
qed

section \<open>Properties of the decoders\<close>

text \<open>
  C6: whenever the fetch fails, each of the three decoders returns the fetch error wrapped
  with its retrieval message and makes no further library call: its trace is the trace of
  the fetch, which contains no call of \<open>json.Unmarshal\<close>. The retrieval message differs
  from the decode message of the credential decoders, and the wrapped retrieval error of
  \<open>GetPostgresDSNSecret\<close> differs from every error its JSON decoding can return.
\<close>

theorem fetch_failure_short_circuits:
  assumes "GetStringSecret w sess secretName = ((secret, Some err), t)"
  shows "GetCredentialSecret w heap sess secretName
        = ((Some (length heap),
            Some (errors_Wrapf err ''Couldn't build credential. Failed to retrieve secret.'')),
           heap @ [Credential_zero], t)
    \<and> GetAPICredentialSecret w aheap sess secretName
        = ((Some (length aheap),
            Some (errors_Wrapf err ''Couldn't build credential. Failed to retrieve secret.'')),
           aheap @ [APICredential_zero], t)
    \<and> GetPostgresDSNSecret w sess secretName
        = (([], Some (errors_Wrapf err ''Couldn't build DSN. Failed to retrieve secret'')), t)
    \<and> filter isUnmarshal t = []
    \<and> (\<forall>e. errors_Wrapf err ''Couldn't build credential. Failed to retrieve secret.''
             \<noteq> errors_Wrapf e ''Couldn't build credential. Failed to decode JSON.'')
    \<and> (\<forall>data v r e. Unmarshal dsn_fields data v = (r, Some e)
          \<longrightarrow> e \<noteq> errors_Wrapf err ''Couldn't build DSN. Failed to retrieve secret'')"
proof -
  have t: "filter isUnmarshal t = []"
    using GetStringSecret_no_Unmarshal [of w sess secretName] assms by simp
  have d: "e \<noteq> errors_Wrapf err ''Couldn't build DSN. Failed to retrieve secret''"
    if "Unmarshal dsn_fields data v = (r, Some e)" for data v r e
    using Unmarshal_error_kind [OF that] by auto
  show ?thesis
    using assms t d
    by (simp add: GetCredentialSecret_def GetAPICredentialSecret_def GetPostgresDSNSecret_def Let_def)
qed

theorem fetch_failure_short_circuits_witness:
  "GetCredentialSecret (stubWorld (Inr 0) (Inl (AwsError ''AccessDeniedException'' ''denied'')))
      [] (Some 3) ''prod/db''
     = ((Some 0,
         Some (errors_Wrapf
                 (errors_Wrapf (AwsError ''AccessDeniedException'' ''denied'')
                    ''Failed to get secret from AWS Secrets Manager: AccessDeniedException'')
                 ''Couldn't build credential. Failed to retrieve secret.'')),
        [Credential_zero],
        [GetSecretValueCall \<lparr>SecretId = Some ''prod/db'', VersionId = None,
           VersionStage = Some ''AWSCURRENT''\<rparr>])
   \<and> GetPostgresDSNSecret (stubWorld (Inr 0) (Inl (AwsError ''AccessDeniedException'' ''denied'')))
      (Some 3) ''prod/db''
     = (([],
         Some (errors_Wrapf
                 (errors_Wrapf (AwsError ''AccessDeniedException'' ''denied'')
                    ''Failed to get secret from AWS Secrets Manager: AccessDeniedException'')
                 ''Couldn't build DSN. Failed to retrieve secret'')),
        [GetSecretValueCall \<lparr>SecretId = Some ''prod/db'', VersionId = None,
           VersionStage = Some ''AWSCURRENT''\<rparr>])"
proof -
  have f: "GetStringSecret (stubWorld (Inr 0) (Inl (AwsError ''AccessDeniedException'' ''denied'')))
      (Some 3) ''prod/db''
     = (([], Some (errors_Wrapf (AwsError ''AccessDeniedException'' ''denied'')
                    ''Failed to get secret from AWS Secrets Manager: AccessDeniedException'')),
        [GetSecretValueCall \<lparr>SecretId = Some ''prod/db'', VersionId = None,
           VersionStage = Some ''AWSCURRENT''\<rparr>])"
    by (simp add: GetStringSecret_def stubWorld_def)
  show ?thesis
    using fetch_failure_short_circuits [OF f, of "[]" "[]"] by simp
qed

text \<open>
  C8: on every path, \<open>GetCredentialSecret\<close> and \<open>GetAPICredentialSecret\<close> return a
  non-nil pointer. Its address was not allocated before the call, it is allocated after
  the call, and the objects that existed before the call are unchanged.
\<close>

theorem credential_pointer_is_fresh:
  "(\<exists>p. fst (fst (GetCredentialSecret w heap sess secretName)) = Some p
        \<and> \<not> p < length heap
        \<and> p < length (fst (snd (GetCredentialSecret w heap sess secretName))))
   \<and> take (length heap) (fst (snd (GetCredentialSecret w heap sess secretName))) = heap
   \<and> (\<exists>p. fst (fst (GetAPICredentialSecret w aheap sess secretName)) = Some p
        \<and> \<not> p < length aheap
        \<and> p < length (fst (snd (GetAPICredentialSecret w aheap sess secretName))))
   \<and> take (length aheap) (fst (snd (GetAPICredentialSecret w aheap sess secretName))) = aheap"
  by (simp add: GetCredentialSecret_def GetAPICredentialSecret_def Let_def
      split: prod.splits option.splits)

theorem credential_pointer_is_fresh_witness:
  "fst (fst (GetCredentialSecret (stubWorld (Inr 0) (binarySecret ''blob''))
               [Credential_zero, Credential_zero] None ''prod/key'')) = Some 2
   \<and> fst (fst (GetAPICredentialSecret (stubWorld (Inr 0) (binarySecret ''blob''))
               [] None ''prod/key'')) = Some 0"
  using credential_pointer_is_fresh
    [where w = "stubWorld (Inr 0) (binarySecret ''blob'')"
       and heap = "[Credential_zero, Credential_zero]" and aheap = "[]"
       and sess = None and secretName = "''prod/key''"]
  by (simp add: GetCredentialSecret_def GetAPICredentialSecret_def GetStringSecret_def stubWorld_def
      binarySecret_def)

section \<open>Properties of the DSN formatter\<close>

text \<open>
  C1: a fetched string that contains both \<open>host=\<close> and \<open>dbname=\<close> is returned
  unmodified and without error, and \<open>json.Unmarshal\<close> is not called on it.
\<close>

theorem dsn_pass_through:
  assumes "GetStringSecret w sess secretName = ((str, None), t)"
    and "\<exists>a b. str = a @ ''host='' @ b"
    and "\<exists>a b. str = a @ ''dbname='' @ b"
  shows "GetPostgresDSNSecret w sess secretName = ((str, None), t) \<and> filter isUnmarshal t = []"
proof -
  have "0 \<le> Index str ''host=''" "0 \<le> Index str ''dbname=''"
    using assms(2,3) by (simp_all only: Index_nonneg_iff)
  moreover have "filter isUnmarshal t = []"
    using GetStringSecret_no_Unmarshal [of w sess secretName] assms(1) by simp
  ultimately show ?thesis
    using assms(1) by (simp add: GetPostgresDSNSecret_def)
qed

theorem dsn_pass_through_witness:
  \<open>fst (GetPostgresDSNSecret (stubWorld (Inr 0) (stringSecret ''host=db.internal dbname=app sslmode=disable''))
          None ''prod/db'')
     = (''host=db.internal dbname=app sslmode=disable'', None)
   \<and> fst (GetPostgresDSNSecret (stubWorld (Inr 0) (stringSecret ''{"note":"host=x dbname=y"}''))
          (Some 7) ''prod/db'')
     = (''{"note":"host=x dbname=y"}'', None)
   \<and> filter isUnmarshal (snd (GetPostgresDSNSecret (stubWorld (Inr 0) (stringSecret ''{"note":"host=x dbname=y"}''))
          (Some 7) ''prod/db'')) = []\<close>
proof -
  have a1: "\<exists>a b. ''host=db.internal dbname=app sslmode=disable'' = a @ ''host='' @ b"
    by (rule exI [of _ "[]"], rule exI [of _ "''db.internal dbname=app sslmode=disable''"]) simp
  have a2: "\<exists>a b. ''host=db.internal dbname=app sslmode=disable'' = a @ ''dbname='' @ b"
    by (rule exI [of _ "''host=db.internal ''"], rule exI [of _ "''app sslmode=disable''"]) simp
  have b1: \<open>\<exists>a b. ''{"note":"host=x dbname=y"}'' = a @ ''host='' @ b\<close>
    by (rule exI [of _ \<open>''{"note":"''\<close>], rule exI [of _ \<open>''x dbname=y"}''\<close>]) simp
  have b2: \<open>\<exists>a b. ''{"note":"host=x dbname=y"}'' = a @ ''dbname='' @ b\<close>
    by (rule exI [of _ \<open>''{"note":"host=x ''\<close>], rule exI [of _ \<open>''y"}''\<close>]) simp
  show ?thesis
    using dsn_pass_through [OF fetch_stub_string a1 a2, of 0 None "''prod/db''"]
      dsn_pass_through [OF fetch_stub_string b1 b2, of 0 "Some 7" "''prod/db''"]
    by simp
qed

text \<open>
  C2: for a fetched payload that fails the pass-through check and that \<open>json.Unmarshal\<close>
  decodes without error into the record \<open>d\<close>, the result is the concatenation, in the
  order host, dbname, user, password, search_path, of one token \<open>key=value\<close> followed by
  a space for each of these fields of \<open>d\<close> that is not empty (\<open>dsnTokens\<close> states this
  in the words of the specification). The fields engine, port and dbInstanceIdentifier of
  \<open>d\<close> do not occur in the result.
\<close>

theorem dsn_built_from_record:
  assumes "GetStringSecret w sess secretName = ((str, None), t)"
    and "\<not> ((\<exists>a b. str = a @ ''host='' @ b) \<and> (\<exists>a b. str = a @ ''dbname='' @ b))"
    and "Unmarshal dsn_fields str dsn_zero = (d, None)"
  shows "GetPostgresDSNSecret w sess secretName
      = ((dsnTokens [(''host'', dsn_Host d), (''dbname'', dsn_DBName d), (''user'', dsn_Username d),
                     (''password'', dsn_Password d), (''search_path'', dsn_SearchPath d)], None),
         t @ [UnmarshalCall str])"
proof -
  have np: "\<not> (0 \<le> Index str ''host='' \<and> 0 \<le> Index str ''dbname='')"
    using assms(2) by (simp add: Index_nonneg_iff)
  show ?thesis
    using assms(1,3) np
    by (simp add: GetPostgresDSNSecret_def dsnTokens_def WriteString_def Let_def)
qed

theorem dsn_built_from_record_witness:
  \<open>fst (GetPostgresDSNSecret
          (stubWorld (Inr 0) (stringSecret
             ''{"engine":"postgres","host":"db1","port":5432,"dbInstanceIdentifier":"i-1","dbname":"app"}''))
          None ''prod/db'')
     = (''host=db1 dbname=app '', None)
   \<and> fst (GetPostgresDSNSecret (stubWorld (Inr 0) (stringSecret ''{"dbname":"app"}'')) None ''prod/db'')
     = (''dbname=app '', None)\<close>
proof -
  let ?p = \<open>''{"engine":"postgres","host":"db1","port":5432,"dbInstanceIdentifier":"i-1","dbname":"app"}''\<close>
  let ?q = \<open>''{"dbname":"app"}''\<close>
  have "\<not> 0 \<le> Index ?p ''host=''"
    by code_simp
  note np = no_pass_through [OF this]
  have dp: "Unmarshal dsn_fields ?p dsn_zero
      = (\<lparr>dsn_Engine = ''postgres'', dsn_Host = ''db1'', dsn_DBName = ''app'', dsn_Username = [],
           dsn_Password = [], dsn_Port = 5432, dsn_SearchPath = [],
           dsn_DBInstanceIdentifier = ''i-1''\<rparr>, None)"
    by code_simp
  have "\<not> 0 \<le> Index ?q ''host=''"
    by code_simp
  note nq = no_pass_through [OF this]
  have dq: "Unmarshal dsn_fields ?q dsn_zero
      = (\<lparr>dsn_Engine = [], dsn_Host = [], dsn_DBName = ''app'', dsn_Username = [],
           dsn_Password = [], dsn_Port = 0, dsn_SearchPath = [],
           dsn_DBInstanceIdentifier = []\<rparr>, None)"
    by code_simp
  show ?thesis
    using dsn_built_from_record [OF fetch_stub_string np dp, of 0 None "''prod/db''"]
      dsn_built_from_record [OF fetch_stub_string nq dq, of 0 None "''prod/db''"]
    by (simp add: dsnTokens_def)
qed

text \<open>
  C3: for the payload with host \<open>db1\<close>, dbname \<open>app\<close>, username \<open>u\<close>, password \<open>p\<close>
  and search_path \<open>public\<close>, the result is exactly
  \<open>host=db1 dbname=app user=u password=p search_path=public\<close> followed by one space, with
  no error.
\<close>

theorem dsn_of_full_payload:
  assumes \<open>GetStringSecret w sess secretName
      = ((''{"host":"db1","dbname":"app","username":"u","password":"p","search_path":"public"}'', None), t)\<close>
  shows \<open>GetPostgresDSNSecret w sess secretName
      = ((''host=db1 dbname=app user=u password=p search_path=public '', None),
         t @ [UnmarshalCall
                ''{"host":"db1","dbname":"app","username":"u","password":"p","search_path":"public"}''])\<close>
proof -
  let ?p = \<open>''{"host":"db1","dbname":"app","username":"u","password":"p","search_path":"public"}''\<close>
  have np: "\<not> 0 \<le> Index ?p ''host=''"
    by code_simp
  have dp: "Unmarshal dsn_fields ?p dsn_zero
      = (\<lparr>dsn_Engine = [], dsn_Host = ''db1'', dsn_DBName = ''app'', dsn_Username = ''u'',
           dsn_Password = ''p'', dsn_Port = 0, dsn_SearchPath = ''public'',
           dsn_DBInstanceIdentifier = []\<rparr>, None)"
    by code_simp
  show ?thesis
    using assms np dp
    by (simp add: GetPostgresDSNSecret_def WriteString_def Let_def)
qed

theorem dsn_of_full_payload_witness:
  \<open>GetPostgresDSNSecret
     (stubWorld (Inr 0) (stringSecret
        ''{"host":"db1","dbname":"app","username":"u","password":"p","search_path":"public"}''))
     (Some 4) ''prod/db''
   = ((''host=db1 dbname=app user=u password=p search_path=public '', None),
      [GetSecretValueCall \<lparr>SecretId = Some ''prod/db'', VersionId = None,
         VersionStage = Some ''AWSCURRENT''\<rparr>,
       UnmarshalCall
         ''{"host":"db1","dbname":"app","username":"u","password":"p","search_path":"public"}''])\<close>
  using dsn_of_full_payload [OF fetch_stub_string, of 0 "Some 4" "''prod/db''"]
  by simp

text \<open>
  C10, as stated, fails on the code in two ways. A payload that is valid JSON and sets none
  of the five fields can still contain \<open>host=\<close> and \<open>dbname=\<close>, and is then passed through
  unchanged; and a payload that is valid JSON and holds only a port can fail to decode (a
  string where the integer is expected), and the payload is then returned with the error.
\<close>

theorem dsn_empty_counterexample:
  \<open>fst (GetPostgresDSNSecret (stubWorld (Inr 0) (stringSecret ''{"engine":"host=dbname="}'')) None ''prod/db'')
     = (''{"engine":"host=dbname="}'', None)
   \<and> Unmarshal dsn_fields ''{"engine":"host=dbname="}'' dsn_zero
     = (\<lparr>dsn_Engine = ''host=dbname='', dsn_Host = [], dsn_DBName = [], dsn_Username = [],
          dsn_Password = [], dsn_Port = 0, dsn_SearchPath = [], dsn_DBInstanceIdentifier = []\<rparr>, None)
   \<and> fst (GetPostgresDSNSecret (stubWorld (Inr 0) (stringSecret ''{"port":"5432"}'')) None ''prod/db'')
     = (''{"port":"5432"}'', Some (UnmarshalTypeError ''string'' ''port''))
   \<and> parse ''{"port":"5432"}'' = Some (JObject [(''port'', JString ''5432'')])\<close>
proof -
  let ?p = \<open>''{"engine":"host=dbname="}''\<close>
  let ?q = \<open>''{"port":"5432"}''\<close>
  have ip: "0 \<le> Index ?p ''host=''" "0 \<le> Index ?p ''dbname=''"
    by code_simp+
  have dp: "Unmarshal dsn_fields ?p dsn_zero
     = (\<lparr>dsn_Engine = ''host=dbname='', dsn_Host = [], dsn_DBName = [], dsn_Username = [],
          dsn_Password = [], dsn_Port = 0, dsn_SearchPath = [], dsn_DBInstanceIdentifier = []\<rparr>, None)"
    by code_simp
  have iq: "\<not> 0 \<le> Index ?q ''host=''"
    by code_simp
  have dq: "Unmarshal dsn_fields ?q dsn_zero = (dsn_zero, Some (UnmarshalTypeError ''string'' ''port''))"
    by code_simp
  have pq: "parse ?q = Some (JObject [(''port'', JString ''5432'')])"
    by code_simp
  show ?thesis
    using ip dp iq dq pq
    by (simp add: GetPostgresDSNSecret_def fetch_stub_string)
qed

text \<open>
  C10, amended: for a fetched payload that fails the pass-through check and that
  \<open>json.Unmarshal\<close> decodes without error into a record whose host, dbname, username,
  password and search_path are all empty, the result is the empty string with no error.
\<close>

theorem dsn_empty_when_no_field:
  assumes "GetStringSecret w sess secretName = ((str, None), t)"
    and "\<not> ((\<exists>a b. str = a @ ''host='' @ b) \<and> (\<exists>a b. str = a @ ''dbname='' @ b))"
    and "Unmarshal dsn_fields str dsn_zero = (d, None)"
    and "dsn_Host d = []" "dsn_DBName d = []" "dsn_Username d = []" "dsn_Password d = []"
      "dsn_SearchPath d = []"
  shows "GetPostgresDSNSecret w sess secretName = (([], None), t @ [UnmarshalCall str])"
proof -
  have np: "\<not> (0 \<le> Index str ''host='' \<and> 0 \<le> Index str ''dbname='')"
    using assms(2) by (simp add: Index_nonneg_iff)
  show ?thesis
    using assms(1,3-) np
    by (simp add: GetPostgresDSNSecret_def Let_def)
qed

theorem dsn_empty_when_no_field_witness:
  \<open>fst (GetPostgresDSNSecret (stubWorld (Inr 0) (stringSecret ''{}'')) None ''prod/db'') = ([], None)
   \<and> fst (GetPostgresDSNSecret
            (stubWorld (Inr 0) (stringSecret ''{"engine":"postgres","port":5432,"dbInstanceIdentifier":"i-1"}''))
            None ''prod/db'') = ([], None)\<close>
proof -
  let ?p = \<open>''{}''\<close>
  let ?q = \<open>''{"engine":"postgres","port":5432,"dbInstanceIdentifier":"i-1"}''\<close>
  let ?d = "\<lparr>dsn_Engine = ''postgres'', dsn_Host = [], dsn_DBName = [], dsn_Username = [],
           dsn_Password = [], dsn_Port = 5432, dsn_SearchPath = [],
           dsn_DBInstanceIdentifier = ''i-1''\<rparr>"
  have "\<not> 0 \<le> Index ?p ''host=''"
    by code_simp
  note np = no_pass_through [OF this]
  have dp: "Unmarshal dsn_fields ?p dsn_zero = (dsn_zero, None)"
    by code_simp
  have "\<not> 0 \<le> Index ?q ''host=''"
    by code_simp
  note nq = no_pass_through [OF this]
  have dq: "Unmarshal dsn_fields ?q dsn_zero = (?d, None)"
    by code_simp
  have z: "dsn_Host dsn_zero = []" "dsn_DBName dsn_zero = []" "dsn_Username dsn_zero = []"
    "dsn_Password dsn_zero = []" "dsn_SearchPath dsn_zero = []"
    by (simp_all add: dsn_zero_def)
  have e: "dsn_Host ?d = []" "dsn_DBName ?d = []" "dsn_Username ?d = []"
    "dsn_Password ?d = []" "dsn_SearchPath ?d = []"
    by simp_all
  show ?thesis
    using dsn_empty_when_no_field [OF fetch_stub_string np dp z, of 0 None "''prod/db''"]
      dsn_empty_when_no_field [OF fetch_stub_string nq dq e, of 0 None "''prod/db''"]
    by simp
qed

section \<open>Decoding a credential\<close>




section \<open>Decode failures\<close>

text \<open>
  C5, as stated, fails on the code in two ways. The two credential decoders return a pointer
  and an error only: for the malformed payloads \<open>x\<close> and \<open>xy\<close> they return the same
  pointer, the same error and the same record, so the raw string cannot be recovered from
  what they return (on both payloads \<open>encoding/json\<close> reports the same message at the
  same offset, the first byte). And a malformed payload that contains \<open>host=\<close> and \<open>dbname=\<close> is
  passed through by \<open>GetPostgresDSNSecret\<close> with no error.
\<close>

theorem malformed_json_counterexample:
  "parse ''x'' = None \<and> parse ''xy'' = None
   \<and> GetCredentialSecret (stubWorld (Inr 0) (stringSecret ''x'')) [] (Some 1) ''prod/db''
     = ((Some 0, Some (errors_Wrapf SyntaxError ''Couldn't build credential. Failed to decode JSON.'')),
        [Credential_zero],
        [GetSecretValueCall \<lparr>SecretId = Some ''prod/db'', VersionId = None,
           VersionStage = Some ''AWSCURRENT''\<rparr>,
         UnmarshalCall ''x''])
   \<and> fst (GetCredentialSecret (stubWorld (Inr 0) (stringSecret ''xy'')) [] (Some 1) ''prod/db'')
     = fst (GetCredentialSecret (stubWorld (Inr 0) (stringSecret ''x'')) [] (Some 1) ''prod/db'')
   \<and> fst (snd (GetCredentialSecret (stubWorld (Inr 0) (stringSecret ''xy'')) [] (Some 1) ''prod/db''))
     = fst (snd (GetCredentialSecret (stubWorld (Inr 0) (stringSecret ''x'')) [] (Some 1) ''prod/db''))
   \<and> fst (GetAPICredentialSecret (stubWorld (Inr 0) (stringSecret ''xy'')) [] (Some 1) ''prod/db'')
     = fst (GetAPICredentialSecret (stubWorld (Inr 0) (stringSecret ''x'')) [] (Some 1) ''prod/db'')
   \<and> fst (snd (GetAPICredentialSecret (stubWorld (Inr 0) (stringSecret ''xy'')) [] (Some 1) ''prod/db''))
     = fst (snd (GetAPICredentialSecret (stubWorld (Inr 0) (stringSecret ''x'')) [] (Some 1) ''prod/db''))
   \<and> parse ''host=db1 dbname=app'' = None
   \<and> fst (GetPostgresDSNSecret (stubWorld (Inr 0) (stringSecret ''host=db1 dbname=app'')) (Some 1) ''prod/db'')
     = (''host=db1 dbname=app'', None)"
proof -
  have p: "parse ''x'' = None" "parse ''xy'' = None" "parse ''host=db1 dbname=app'' = None"
    by code_simp+
  have i: "0 \<le> Index ''host=db1 dbname=app'' ''host=''" "0 \<le> Index ''host=db1 dbname=app'' ''dbname=''"
    by code_simp+
  show ?thesis
    using p i
    by (simp add: GetCredentialSecret_def GetAPICredentialSecret_def GetPostgresDSNSecret_def
        fetch_stub_string Unmarshal_def Let_def)
qed

text \<open>
  C5, amended: for a fetched payload that is not valid JSON, \<open>GetCredentialSecret\<close> and
  \<open>GetAPICredentialSecret\<close> return the JSON syntax error wrapped with their decode message,
  together with a pointer to a zero-valued record; \<open>GetPostgresDSNSecret\<close> returns the
  original payload together with the JSON syntax error whenever the payload fails the
  pass-through check.
\<close>

theorem malformed_json_is_a_decode_error:
  assumes "GetStringSecret w sess secretName = ((secret, None), t)"
    and "parse secret = None"
  shows "GetCredentialSecret w heap sess secretName
      = ((Some (length heap),
          Some (errors_Wrapf SyntaxError ''Couldn't build credential. Failed to decode JSON.'')),
         heap @ [Credential_zero], t @ [UnmarshalCall secret])
    \<and> GetAPICredentialSecret w aheap sess secretName
      = ((Some (length aheap),
          Some (errors_Wrapf SyntaxError ''Couldn't build credential. Failed to decode JSON.'')),
         aheap @ [APICredential_zero], t @ [UnmarshalCall secret])
    \<and> (\<not> ((\<exists>a b. secret = a @ ''host='' @ b) \<and> (\<exists>a b. secret = a @ ''dbname='' @ b))
        \<longrightarrow> GetPostgresDSNSecret w sess secretName
            = ((secret, Some SyntaxError), t @ [UnmarshalCall secret]))"
  using assms
  by (simp add: GetCredentialSecret_def GetAPICredentialSecret_def GetPostgresDSNSecret_def
      Unmarshal_def Let_def Index_nonneg_iff)

theorem malformed_json_is_a_decode_error_witness:
  \<open>fst (GetCredentialSecret (stubWorld (Inr 0) (stringSecret ''{"host":"db1",}'')) [] (Some 1) ''prod/db'')
     = (Some 0, Some (errors_Wrapf SyntaxError ''Couldn't build credential. Failed to decode JSON.''))
   \<and> fst (GetAPICredentialSecret (stubWorld (Inr 0) (stringSecret ''{"host":"db1",}'')) [] (Some 1) ''prod/db'')
     = (Some 0, Some (errors_Wrapf SyntaxError ''Couldn't build credential. Failed to decode JSON.''))
   \<and> fst (GetPostgresDSNSecret (stubWorld (Inr 0) (stringSecret ''{"host":"db1",}'')) (Some 1) ''prod/db'')
     = (''{"host":"db1",}'', Some SyntaxError)\<close>
proof -
  let ?p = \<open>''{"host":"db1",}''\<close>
  have p: "parse ?p = None"
    by code_simp
  have "\<not> 0 \<le> Index ?p ''host=''"
    by code_simp
  note np = no_pass_through [OF this]
  note r = malformed_json_is_a_decode_error
      [OF fetch_stub_string [of 0 ?p "Some 1" "''prod/db''"] p, of "[]" "[]"]
  show ?thesis
    using r [THEN conjunct1] r [THEN conjunct2, THEN conjunct1]
      mp [OF r [THEN conjunct2, THEN conjunct2] np]
    by simp
qed

end
